theory Spec2Isabelle
  imports Main
begin

section \<open>Data model of the client page\<close>

text \<open>
  The client is the React component \<open>Home\<close>. Its \<open>useState\<close> cells and \<open>useRef\<close>
  cells are the fields of one record, and every handler of the component is a function
  from the state (and what the environment answers) to the next state. Field names are
  the source's; \<open>id\<close>, \<open>text\<close> and \<open>createdAt\<close> carry the name of their interface as a
  suffix, because \<open>Task\<close> and \<open>Recording\<close> both declare them.
\<close>

datatype category = Urgent | Later | Completed

datatype priority = Low | Medium | High

datatype tab = RecordTab | TasksTab | RecordingsTab | SettingsTab

record Task =
  id_task :: string
  text_task :: string
  category :: category
  createdAt_task :: string
  dueDate :: "string option"
  priority :: priority

text \<open>A \<open>Blob\<close> is its bytes; the optional \<open>transcript\<close> is \<open>None\<close> when \<open>undefined\<close>.\<close>

type_synonym blob = "nat list"

record Recording =
  id_recording :: string
  blob :: blob
  url :: string
  createdAt_recording :: string
  duration :: int
  transcript :: "string option"

text \<open>
  \<open>mediaRecorderRef.current\<close> holds the recorder object, identified here by the handle
  of the stream it was built on; \<open>chunksRef.current\<close> is the buffer of audio chunks.
  \<open>console\<close> and \<open>alerts\<close> collect what \<open>console.error\<close> and \<open>alert\<close> print.
\<close>

record client =
  activeTab :: tab
  isRecording :: bool
  recordings :: "Recording list"
  tasks :: "Task list"
  transcribing :: bool
  selectedRecording :: "Recording option"
  mediaRecorderRef :: "nat option"
  chunksRef :: "blob list"
  console :: "string list"
  alerts :: "string list"

definition initial_client :: client where
  "initial_client =
     \<lparr>activeTab = RecordTab, isRecording = False, recordings = [], tasks = [],
      transcribing = False, selectedRecording = None, mediaRecorderRef = None,
      chunksRef = [], console = [], alerts = []\<rparr>"

section \<open>Recording lifecycle\<close>






section \<open>Transcription request\<close>

text \<open>
  The body parsed by \<open>response.json()\<close>, read the way the handler reads it: the two
  fields \<open>urgent\<close> and \<open>later\<close>, each absent (\<open>None\<close>: \<open>undefined\<close> or \<open>null\<close>, which
  the handler cannot tell apart) or an array of strings, the element type the source
  annotates (\<open>(text: string)\<close>). Any other key of the object, such as \<open>error\<close>, is
  never read. A body that breaks this typing (a key that holds something other than an
  array of strings) is not a value of this type.
\<close>

record response =
  urgent :: "string list option"
  later :: "string list option"

text \<open>
  The outcomes of the two awaited calls inside the \<open>try\<close>: \<open>fetch\<close> rejects, or
  \<open>response.json()\<close> rejects, or the parsed body arrives.
\<close>

datatype fetch_outcome = NetworkError | ParseError | Data response

text \<open>An array is truthy even when empty; \<open>undefined\<close> is not.\<close>

fun truthy :: "'a option \<Rightarrow> bool" where
  "truthy None = False"
| "truthy (Some _) = True"

text \<open>\<open>x || []\<close>\<close>

fun or_empty :: "'a list option \<Rightarrow> 'a list" where
  "or_empty None = []"
| "or_empty (Some xs) = xs"

text \<open>
  The \<open>k\<close>-th call of \<open>Math.random().toString(36).substr(2, 9)\<close> and of
  \<open>new Date().toISOString()\<close> during one invocation are \<open>rnd k\<close> and \<open>now k\<close>. One
  \<open>map\<close> over an array makes one call of each per element, in order, so the elements of
  an array mapped after \<open>off\<close> earlier calls use the calls \<open>off, off + 1, ...\<close>.
\<close>

definition new_tasks ::
  "(nat \<Rightarrow> string) \<Rightarrow> (nat \<Rightarrow> string) \<Rightarrow> nat \<Rightarrow> category \<Rightarrow> priority \<Rightarrow> string list \<Rightarrow> Task list"
where
  "new_tasks rnd now off cat pri texts =
     map (\<lambda>(k, t). \<lparr>id_task = rnd k, text_task = t, category = cat,
                     createdAt_task = now k, dueDate = None, priority = pri\<rparr>)
         (enumerate off texts)"

text \<open>
  \<open>Array.prototype.join\<close>: an element that is \<open>undefined\<close> or \<open>null\<close> is rendered as the
  empty string, and the separator stands between every two elements.
\<close>

fun js_join :: "string \<Rightarrow> string option list \<Rightarrow> string" where
  "js_join sep [] = []"
| "js_join sep [x] = (case x of None \<Rightarrow> [] | Some s \<Rightarrow> s)"
| "js_join sep (x # y # ys) = (case x of None \<Rightarrow> [] | Some s \<Rightarrow> s) @ sep @ js_join sep (y # ys)"

text \<open>
  The reading of "newline-joined" that the transcript is compared with: the strings of a
  list, in order, with one newline character between every two.
\<close>

fun newline_joined :: "string list \<Rightarrow> string" where
  "newline_joined [] = []"
| "newline_joined [s] = s"
| "newline_joined (s # t # ts) = s @ CHR 0x0A # newline_joined (t # ts)"

text \<open>
  \<open>a.concat(v)\<close>: an array argument is spread, any other value (here \<open>undefined\<close>) is
  appended as one element.
\<close>

definition js_concat :: "string list \<Rightarrow> string list option \<Rightarrow> string option list" where
  "js_concat a v = map Some a @ (case v of None \<Rightarrow> [None] | Some b \<Rightarrow> map Some b)"

text \<open>\<open>data.urgent?.concat(data.later)?.join('\n')\<close>\<close>

definition transcript_of :: "response \<Rightarrow> string option" where
  "transcript_of d =
     (case urgent d of
        None \<Rightarrow> None
      | Some us \<Rightarrow> Some (js_join [CHR 0x0A] (js_concat us (later d))))"

text \<open>
  \<open>transcribeRecording\<close> suspends at its two \<open>await\<close>s, so it is two steps of the
  state: the part before the first \<open>await\<close>, and the part that runs when the awaited
  calls have settled. The setters of the second part are given updater functions
  (\<open>prev => ...\<close>), so they act on the state the client has at that moment, which is the
  argument \<open>c\<close> of \<open>transcribeRecording_settle\<close>.
\<close>

definition transcribeRecording_begin :: "client \<Rightarrow> client" where
  "transcribeRecording_begin c = c\<lparr>transcribing := True\<rparr>"

definition transcribeRecording_settle ::
  "(nat \<Rightarrow> string) \<Rightarrow> (nat \<Rightarrow> string) \<Rightarrow> Recording \<Rightarrow> fetch_outcome \<Rightarrow> client \<Rightarrow> client"
where
  "transcribeRecording_settle rnd now recording out c =
     (case out of
        NetworkError \<Rightarrow>
          c\<lparr>console := console c @ [''Error transcribing:''], transcribing := False\<rparr>
      | ParseError \<Rightarrow>
          c\<lparr>console := console c @ [''Error transcribing:''], transcribing := False\<rparr>
      | Data d \<Rightarrow>
          (if truthy (urgent d) \<or> truthy (later d) then
             let urgentTasks = new_tasks rnd now 0 Urgent High (or_empty (urgent d));
                 laterTasks = new_tasks rnd now (length (or_empty (urgent d))) Later Medium
                                (or_empty (later d))
             in c\<lparr>tasks := urgentTasks @ laterTasks @ tasks c,
                  recordings :=
                    map (\<lambda>r. if id_recording r = id_recording recording
                              then r\<lparr>transcript := transcript_of d\<rparr> else r)
                        (recordings c),
                  activeTab := TasksTab,
                  transcribing := False\<rparr>
           else c\<lparr>transcribing := False\<rparr>))"

text \<open>One whole invocation, with no other event between its two parts.\<close>

definition transcribeRecording ::
  "(nat \<Rightarrow> string) \<Rightarrow> (nat \<Rightarrow> string) \<Rightarrow> Recording \<Rightarrow> fetch_outcome \<Rightarrow> client \<Rightarrow> client"
where
  "transcribeRecording rnd now recording out c =
     transcribeRecording_settle rnd now recording out (transcribeRecording_begin c)"

section \<open>Mutations of recordings and tasks\<close>

definition deleteRecording :: "client \<Rightarrow> string \<Rightarrow> client" where
  "deleteRecording c i =
     (let c' = c\<lparr>recordings := filter (\<lambda>r. id_recording r \<noteq> i) (recordings c)\<rparr>
      in if (case selectedRecording c of None \<Rightarrow> False | Some r \<Rightarrow> id_recording r = i)
         then c'\<lparr>selectedRecording := None\<rparr> else c')"

definition toggleTaskComplete :: "client \<Rightarrow> string \<Rightarrow> client" where
  "toggleTaskComplete c i =
     c\<lparr>tasks :=
         map (\<lambda>task. if id_task task = i
                      then task\<lparr>category := (if category task = Completed then Later else Completed)\<rparr>
                      else task)
             (tasks c)\<rparr>"

definition deleteTask :: "client \<Rightarrow> string \<Rightarrow> client" where
  "deleteTask c i = c\<lparr>tasks := filter (\<lambda>t. id_task t \<noteq> i) (tasks c)\<rparr>"

definition updateTaskPriority :: "client \<Rightarrow> string \<Rightarrow> priority \<Rightarrow> client" where
  "updateTaskPriority c i p =
     c\<lparr>tasks := map (\<lambda>task. if id_task task = i then task\<lparr>priority := p\<rparr> else task) (tasks c)\<rparr>"

section \<open>Display grouping\<close>

definition urgentTasks :: "client \<Rightarrow> Task list" where
  "urgentTasks c = filter (\<lambda>t. category t = Urgent) (tasks c)"

definition laterTasks :: "client \<Rightarrow> Task list" where
  "laterTasks c = filter (\<lambda>t. category t = Later) (tasks c)"

definition completedTasks :: "client \<Rightarrow> Task list" where
  "completedTasks c = filter (\<lambda>t. category t = Completed) (tasks c)"

section \<open>Transcription endpoint\<close>

text \<open>
  The handler \<open>POST\<close> is straight-line code over calls that either return or throw.
  What each call answers is the environment of one request.
\<close>

datatype 'a outcome = Throws | Returns 'a

text \<open>An entry of a multipart form is a file or a string.\<close>

datatype form_value = FileValue blob | StringValue string

text \<open>
  \<open>formData_result\<close>: \<open>request.formData()\<close>, the form as a lookup by field name.
  \<open>store_result\<close>: \<open>audioFile.arrayBuffer()\<close>, \<open>Buffer.from\<close> and \<open>fs.writeFileSync\<close>,
  which read the upload and write the temporary file.
  \<open>whisper\<close>: \<open>openai.audio.transcriptions.create\<close> on the stored bytes, giving
  \<open>transcription.text\<close>.
  \<open>unlink_result\<close>: \<open>fs.unlinkSync\<close>.
  \<open>chat\<close>: \<open>openai.chat.completions.create\<close> on the user message, giving
  \<open>response.choices\<close>, each choice reduced to its \<open>message?.content\<close> (\<open>None\<close> when
  the message is missing or its content is \<open>null\<close>).
\<close>

record upstream =
  formData_result :: "(string \<Rightarrow> form_value option) outcome"
  store_result :: "unit outcome"
  whisper :: "blob \<Rightarrow> string outcome"
  unlink_result :: "unit outcome"
  chat :: "string \<Rightarrow> string option list outcome"

datatype 'j body = ErrorBody string | JsonBody 'j

record 'j http_response =
  status :: nat
  body :: "'j body"

text \<open>\<open>NextResponse.json({ error: msg }, { status: st })\<close>\<close>

definition error_response :: "string \<Rightarrow> nat \<Rightarrow> 'j http_response" where
  "error_response msg st = \<lparr>status = st, body = ErrorBody msg\<rparr>"

text \<open>The outer \<open>catch\<close>.\<close>

abbreviation POST_catch :: "'j http_response" where
  "POST_catch \<equiv> error_response ''Failed to transcribe audio'' 500"

definition user_message :: "string \<Rightarrow> string" where
  "user_message t =
     ''Transcript: '' @ [CHR 0x22] @ t @ [CHR 0x22, CHR 0x0A, CHR 0x0A]
       @ ''Organize this into urgent and later tasks. Return JSON only.''"

text \<open>\<open>response.choices[0]?.message?.content\<close>\<close>

fun first_content :: "string option list \<Rightarrow> string option" where
  "first_content [] = None"
| "first_content (c # _) = c"

text \<open>
  The inner \<open>try\<close>: \<open>JSON.parse\<close> is the parameter \<open>parse\<close>, \<open>None\<close> where it throws.
\<close>

definition POST_parse :: "(string \<Rightarrow> 'j option) \<Rightarrow> string \<Rightarrow> 'j http_response" where
  "POST_parse parse content =
     (case parse content of
        Some parsed \<Rightarrow> \<lparr>status = 200, body = JsonBody parsed\<rparr>
      | None \<Rightarrow> error_response ''Failed to parse AI response'' 500)"

text \<open>
  \<open>!audioFile\<close> holds for a missing field (\<open>get\<close> gives \<open>null\<close>) and for an empty
  string entry. A non-empty string entry passes the test and has no \<open>arrayBuffer\<close>
  method, so the next line throws. \<open>!content\<close> holds for \<open>undefined\<close>, \<open>null\<close> and the
  empty string.
\<close>

definition POST :: "(string \<Rightarrow> 'j option) \<Rightarrow> upstream \<Rightarrow> 'j http_response" where
  "POST parse env =
     (case formData_result env of
        Throws \<Rightarrow> POST_catch
      | Returns formData \<Rightarrow>
         (case formData ''audio'' of
            None \<Rightarrow> error_response ''No audio file provided'' 400
          | Some (StringValue s) \<Rightarrow>
              (if s = [] then error_response ''No audio file provided'' 400 else POST_catch)
          | Some (FileValue bytes) \<Rightarrow>
             (case store_result env of
                Throws \<Rightarrow> POST_catch
              | Returns _ \<Rightarrow>
                 (case whisper env bytes of
                    Throws \<Rightarrow> POST_catch
                  | Returns transcription \<Rightarrow>
                     (case unlink_result env of
                        Throws \<Rightarrow> POST_catch
                      | Returns _ \<Rightarrow>
                         (case chat env (user_message transcription) of
                            Throws \<Rightarrow> POST_catch
                          | Returns choices \<Rightarrow>
                             (case first_content choices of
                                None \<Rightarrow> error_response ''No response from AI'' 500
                              | Some content \<Rightarrow>
                                  (if content = []
                                   then error_response ''No response from AI'' 500
                                   else POST_parse parse content))))))))"

section \<open>Example states\<close>

definition task_a :: Task where
  "task_a = \<lparr>id_task = ''a1'', text_task = ''call bank'', category = Urgent,
             createdAt_task = ''t0'', dueDate = None, priority = High\<rparr>"

definition task_b :: Task where
  "task_b = \<lparr>id_task = ''b2'', text_task = ''buy milk'', category = Later,
             createdAt_task = ''t1'', dueDate = None, priority = Medium\<rparr>"

definition task_c :: Task where
  "task_c = \<lparr>id_task = ''c3'', text_task = ''file taxes'', category = Completed,
             createdAt_task = ''t2'', dueDate = None, priority = Low\<rparr>"

definition rec_x :: Recording where
  "rec_x = \<lparr>id_recording = ''x'', blob = [1, 2], url = ''blob:x'',
            createdAt_recording = ''t3'', duration = 0, transcript = None\<rparr>"

definition rec_y :: Recording where
  "rec_y = \<lparr>id_recording = ''y'', blob = [3], url = ''blob:y'',
            createdAt_recording = ''t4'', duration = 0, transcript = Some ''old''\<rparr>"

definition busy_client :: client where
  "busy_client =
     \<lparr>activeTab = RecordTab, isRecording = True, recordings = [rec_x, rec_y],
      tasks = [task_a, task_b, task_c], transcribing = False,
      selectedRecording = Some rec_x, mediaRecorderRef = Some 0, chunksRef = [[7, 8]],
      console = [], alerts = []\<rparr>"

text \<open>
  A request whose every step succeeds, and a stand-in for \<open>JSON.parse\<close> that accepts
  one text.
\<close>

definition env_ok :: upstream where
  "env_ok =
     \<lparr>formData_result = Returns (\<lambda>k. if k = ''audio'' then Some (FileValue [1, 2, 3]) else None),
      store_result = Returns (),
      whisper = (\<lambda>b. Returns ''call the bank''),
      unlink_result = Returns (),
      chat = (\<lambda>m. Returns [Some ''{}''])\<rparr>"

definition parse0 :: "string \<Rightarrow> nat option" where
  "parse0 s = (if s = ''{}'' then Some 0 else None)"

definition rnd0 :: "nat \<Rightarrow> string" where
  "rnd0 k = replicate (Suc k) CHR ''r''"

definition now0 :: "nat \<Rightarrow> string" where
  "now0 k = replicate (Suc k) CHR ''t''"

section \<open>Lemmas on lists\<close>

lemma filter_category_length:
  "length (filter (\<lambda>t. category t = Urgent) ts) + length (filter (\<lambda>t. category t = Later) ts)
     + length (filter (\<lambda>t. category t = Completed) ts) = length ts"
proof (induction ts)
  case Nil
  then show ?case by simp
next
  case (Cons t ts)
  then show ?case by (cases "category t") simp_all
qed

lemma filter_category_count:
  "count_list (filter (\<lambda>t. category t = Urgent) ts) x
     + count_list (filter (\<lambda>t. category t = Later) ts) x
     + count_list (filter (\<lambda>t. category t = Completed) ts) x = count_list ts x"
proof (induction ts)
  case Nil
  then show ?case by simp
next
  case (Cons t ts)
  then show ?case by (cases "category t") simp_all
qed

lemma filter_category_union:
  "set (filter (\<lambda>t. category t = Urgent) ts) \<union> set (filter (\<lambda>t. category t = Later) ts)
     \<union> set (filter (\<lambda>t. category t = Completed) ts) = set ts"
proof -
  have "\<And>t. category t = Urgent \<or> category t = Later \<or> category t = Completed"
    using category.exhaust by blast
  then show ?thesis by auto
qed

lemma map_if_absent:
  "i \<notin> key ` set xs \<Longrightarrow> map (\<lambda>x. if key x = i then g x else x) xs = xs"
  by (induction xs) auto

lemma filter_absent: "i \<notin> key ` set xs \<Longrightarrow> filter (\<lambda>x. key x \<noteq> i) xs = xs"
  by (induction xs) auto

lemma filter_distinct_key_length:
  "distinct (map key xs) \<Longrightarrow> i \<in> key ` set xs \<Longrightarrow>
     Suc (length (filter (\<lambda>x. key x \<noteq> i) xs)) = length xs"
proof (induction xs)
  case Nil
  then show ?case by simp
next
  case (Cons x xs)
  show ?case
  proof (cases "key x = i")
    case True
    with Cons.prems have "i \<notin> key ` set xs" by auto
    then have "filter (\<lambda>x. key x \<noteq> i) xs = xs" by (rule filter_absent)
    with True show ?thesis by simp
  next
    case False
    with Cons show ?thesis by auto
  qed
qed

section \<open>Tasks made from a classification response\<close>

lemma new_tasks_length: "length (new_tasks rnd now off cat pri texts) = length texts"
  by (simp add: new_tasks_def)

lemma new_tasks_view:
  "map (\<lambda>t. (text_task t, category t, priority t)) (new_tasks rnd now off cat pri texts)
     = map (\<lambda>s. (s, cat, pri)) texts"
  unfolding new_tasks_def
  by (induction texts arbitrary: off) simp_all

lemma settle_tasks:
  "tasks (transcribeRecording_settle rnd now recording (Data d) c) =
     new_tasks rnd now 0 Urgent High (or_empty (urgent d))
       @ new_tasks rnd now (length (or_empty (urgent d))) Later Medium (or_empty (later d))
       @ tasks c"
  by (cases "urgent d"; cases "later d")
    (simp_all add: transcribeRecording_settle_def new_tasks_def)

text \<open>
  C1. When a parsed body arrives, the task list afterwards is: first one task per string
  of the body's \<open>urgent\<close> array, in the array's order, each with that string as text,
  category \<open>urgent\<close> and priority \<open>high\<close>; then one task per string of the \<open>later\<close>
  array, in order, each with category \<open>later\<close> and priority \<open>medium\<close>; then all the
  tasks the list held before. An absent array contributes no task. \<open>c\<close> is the state at
  the moment the response is handled; an invocation with nothing in between gives the
  same list.
\<close>

theorem transcribeRecording_creates_tasks:
  "let us = or_empty (urgent d); ls = or_empty (later d);
       c' = transcribeRecording_settle rnd now recording (Data d) c
   in map (\<lambda>t. (text_task t, category t, priority t)) (take (length us) (tasks c'))
        = map (\<lambda>s. (s, Urgent, High)) us
    \<and> map (\<lambda>t. (text_task t, category t, priority t))
          (take (length ls) (drop (length us) (tasks c')))
        = map (\<lambda>s. (s, Later, Medium)) ls
    \<and> drop (length us + length ls) (tasks c') = tasks c
    \<and> tasks (transcribeRecording rnd now recording (Data d) c) = tasks c'"
  by (simp add: Let_def settle_tasks new_tasks_length new_tasks_view transcribeRecording_def
      transcribeRecording_begin_def)

theorem transcribeRecording_creates_tasks_witness:
  "map (\<lambda>t. (text_task t, category t, priority t))
     (tasks (transcribeRecording rnd0 now0 rec_x
        (Data \<lparr>urgent = Some [''call bank''], later = Some [''buy milk'']\<rparr>) initial_client))
     = [(''call bank'', Urgent, High), (''buy milk'', Later, Medium)]"
  using transcribeRecording_creates_tasks [of "\<lparr>urgent = Some [''call bank''], later = Some [''buy milk'']\<rparr>"
      rnd0 now0 rec_x initial_client]
  by (simp add: Let_def initial_client_def transcribeRecording_def transcribeRecording_begin_def
      transcribeRecording_settle_def new_tasks_def)

section \<open>Display buckets\<close>

text \<open>
  C2. In every state of the client, reachable or not, the three filtered lists split
  the task list: their lengths add up to the length of the list, every occurrence of a
  task is counted in exactly one of them, their union is the set of all tasks, and no
  two of them share a task.
\<close>

theorem task_buckets_partition:
  "length (urgentTasks c) + length (laterTasks c) + length (completedTasks c) = length (tasks c)
   \<and> count_list (urgentTasks c) t + count_list (laterTasks c) t + count_list (completedTasks c) t
       = count_list (tasks c) t
   \<and> set (urgentTasks c) \<union> set (laterTasks c) \<union> set (completedTasks c) = set (tasks c)
   \<and> set (urgentTasks c) \<inter> set (laterTasks c) = {}
   \<and> set (urgentTasks c) \<inter> set (completedTasks c) = {}
   \<and> set (laterTasks c) \<inter> set (completedTasks c) = {}"
  unfolding urgentTasks_def laterTasks_def completedTasks_def
  using filter_category_length [of "tasks c"] filter_category_count [of "tasks c" t]
    filter_category_union [of "tasks c"]
  by auto

theorem task_buckets_partition_witness:
  "map id_task (urgentTasks busy_client) = [''a1'']
   \<and> map id_task (laterTasks busy_client) = [''b2'']
   \<and> map id_task (completedTasks busy_client) = [''c3'']
   \<and> length (urgentTasks busy_client) + length (laterTasks busy_client)
       + length (completedTasks busy_client) = 3"
  using task_buckets_partition [of busy_client task_a]
  by (simp add: busy_client_def task_a_def task_b_def task_c_def urgentTasks_def laterTasks_def
      completedTasks_def)

section \<open>The transcribing flag\<close>

text \<open>
  C3. Whatever the outcome of an invocation of \<open>transcribeRecording\<close> (the fetch
  rejects, the body does not parse, or a body arrives, with or without the two keys),
  the \<open>transcribing\<close> flag is false once the invocation has completed, from whatever
  state the completion runs in.
\<close>

theorem transcribing_cleared_on_every_exit:
  "transcribing (transcribeRecording_settle rnd now recording out c) = False
   \<and> transcribing (transcribeRecording rnd now recording out c) = False"
  by (cases out) (simp_all add: transcribeRecording_def transcribeRecording_settle_def Let_def)

theorem transcribing_cleared_on_every_exit_witness:
  "transcribing (transcribeRecording_begin busy_client)
   \<and> \<not> transcribing (transcribeRecording rnd0 now0 rec_x NetworkError busy_client)
   \<and> \<not> transcribing (transcribeRecording rnd0 now0 rec_x
           (Data \<lparr>urgent = None, later = None\<rparr>) busy_client)
   \<and> \<not> transcribing (transcribeRecording rnd0 now0 rec_x
           (Data \<lparr>urgent = Some [''call bank''], later = Some []\<rparr>) busy_client)"
  using transcribing_cleared_on_every_exit [of rnd0 now0 rec_x NetworkError busy_client]
    transcribing_cleared_on_every_exit [of rnd0 now0 rec_x
      "Data \<lparr>urgent = None, later = None\<rparr>" busy_client]
    transcribing_cleared_on_every_exit [of rnd0 now0 rec_x
      "Data \<lparr>urgent = Some [''call bank''], later = Some []\<rparr>" busy_client]
  by (simp add: transcribeRecording_begin_def)

section \<open>Toggling completion\<close>

text \<open>
  C4 (amended). For a task of the list whose id is toggled twice: if its category was
  \<open>urgent\<close> or \<open>later\<close> it ends as \<open>later\<close>; if it was \<open>completed\<close> it ends as
  \<open>completed\<close> again. One toggle of a \<open>completed\<close> task gives \<open>later\<close>.
\<close>

theorem toggle_twice:
  "k < length (tasks c) \<Longrightarrow> id_task (tasks c ! k) = i \<Longrightarrow>
     category (tasks (toggleTaskComplete (toggleTaskComplete c i) i) ! k)
       = (if category (tasks c ! k) = Completed then Completed else Later)
     \<and> (category (tasks c ! k) = Completed \<longrightarrow>
          category (tasks (toggleTaskComplete c i) ! k) = Later)"
  by (simp add: toggleTaskComplete_def)

theorem toggle_twice_witness:
  "category (tasks (toggleTaskComplete (toggleTaskComplete busy_client ''a1'') ''a1'') ! 0) = Later
   \<and> category (tasks (toggleTaskComplete (toggleTaskComplete busy_client ''c3'') ''c3'') ! 2)
       = Completed
   \<and> category (tasks (toggleTaskComplete busy_client ''c3'') ! 2) = Later"
  using toggle_twice [of 0 busy_client "''a1''"] toggle_twice [of 2 busy_client "''c3''"]
  by (simp add: busy_client_def task_a_def task_b_def task_c_def)

text \<open>
  C4 as stated fails: a list holding one \<open>completed\<close> task holds the same task, still
  \<open>completed\<close>, after two toggles of its id.
\<close>

theorem toggle_twice_counterexample:
  "id_task task_c = ''c3'' \<and> category task_c = Completed
   \<and> tasks (toggleTaskComplete (toggleTaskComplete (initial_client\<lparr>tasks := [task_c]\<rparr>) ''c3'')
        ''c3'') = [task_c]
   \<and> category task_c \<noteq> Later"
  by (simp add: toggleTaskComplete_def task_c_def initial_client_def)

section \<open>Failed and empty transcriptions\<close>

text \<open>
  C5. When the fetch rejects, or the body does not parse, or the body has neither an
  \<open>urgent\<close> nor a \<open>later\<close> key, the invocation leaves the task list, the recordings
  (so every transcript) and the active tab as they were.
\<close>

theorem failed_transcription_is_noop:
  "out = NetworkError \<or> out = ParseError
     \<or> (\<exists>d. out = Data d \<and> urgent d = None \<and> later d = None) \<Longrightarrow>
     tasks (transcribeRecording_settle rnd now recording out c) = tasks c
     \<and> recordings (transcribeRecording_settle rnd now recording out c) = recordings c
     \<and> activeTab (transcribeRecording_settle rnd now recording out c) = activeTab c
     \<and> tasks (transcribeRecording rnd now recording out c) = tasks c
     \<and> recordings (transcribeRecording rnd now recording out c) = recordings c
     \<and> activeTab (transcribeRecording rnd now recording out c) = activeTab c"
  by (auto simp add: transcribeRecording_def transcribeRecording_settle_def
      transcribeRecording_begin_def)

theorem failed_transcription_is_noop_witness:
  "tasks (transcribeRecording rnd0 now0 rec_x NetworkError busy_client) = [task_a, task_b, task_c]
   \<and> recordings (transcribeRecording rnd0 now0 rec_x ParseError busy_client) = [rec_x, rec_y]
   \<and> activeTab (transcribeRecording rnd0 now0 rec_x
        (Data \<lparr>urgent = None, later = None\<rparr>) busy_client) = RecordTab
   \<and> tasks (transcribeRecording rnd0 now0 rec_x
        (Data \<lparr>urgent = None, later = None\<rparr>) busy_client) = [task_a, task_b, task_c]"
  using failed_transcription_is_noop [of NetworkError rnd0 now0 rec_x busy_client]
    failed_transcription_is_noop [of ParseError rnd0 now0 rec_x busy_client]
    failed_transcription_is_noop [of "Data \<lparr>urgent = None, later = None\<rparr>" rnd0 now0 rec_x busy_client]
  by (simp add: busy_client_def)

section \<open>The transcript of a recording\<close>

lemma js_join_strings: "js_join [CHR 0x0A] (map Some xs) = newline_joined xs"
  by (induction xs rule: newline_joined.induct) simp_all

text \<open>
  What the handler does attach. Whatever the outcome, the list keeps its length and a
  recording whose id is not the originating recording's is unchanged; and when the body
  has both arrays, a recording with the originating id gets the \<open>urgent\<close> strings
  followed by the \<open>later\<close> strings, newline-joined.
\<close>

lemma other_recordings_untouched:
  "length (recordings (transcribeRecording_settle rnd now recording out c)) = length (recordings c)
   \<and> (k < length (recordings c) \<and> id_recording (recordings c ! k) \<noteq> id_recording recording \<longrightarrow>
        recordings (transcribeRecording_settle rnd now recording out c) ! k = recordings c ! k)"
  by (cases out) (simp_all add: transcribeRecording_settle_def Let_def)

lemma transcript_both_keys:
  "k < length (recordings c) \<Longrightarrow> id_recording (recordings c ! k) = id_recording recording \<Longrightarrow>
   urgent d = Some us \<Longrightarrow> later d = Some ls \<Longrightarrow>
     recordings (transcribeRecording_settle rnd now recording (Data d) c) ! k
       = (recordings c ! k)\<lparr>transcript := Some (newline_joined (us @ ls))\<rparr>"
  using js_join_strings [of "us @ ls"]
  by (simp add: transcribeRecording_settle_def Let_def transcript_of_def js_concat_def)

text \<open>
  C7. The transcript of the originating recording should be the \<open>urgent\<close> strings
  followed by the \<open>later\<close> strings, newline-joined, for every body with at least one
  of the two keys. The line that builds it has no \<open>|| []\<close>, unlike the two lines that
  build the tasks, so on a body with one key it does something else. Run for the
  second recording of the list, whose transcript is \<open>old\<close>: with only \<open>later\<close> the
  transcript becomes undefined, where the joined strings are \<open>buy milk\<close>, although the
  task \<open>buy milk\<close> is created; with only \<open>urgent\<close> the transcript is \<open>call bank\<close>
  followed by a newline, where the joined strings are \<open>call bank\<close>.
\<close>

theorem transcript_one_key_evaluated:
  "transcript rec_y = Some ''old''
   \<and> map transcript (recordings (transcribeRecording rnd0 now0 rec_y
        (Data \<lparr>urgent = None, later = Some [''buy milk'']\<rparr>) busy_client)) = [None, None]
   \<and> newline_joined ([] @ [''buy milk'']) = ''buy milk''
   \<and> map transcript (recordings (transcribeRecording rnd0 now0 rec_y
        (Data \<lparr>urgent = Some [''call bank''], later = None\<rparr>) busy_client))
       = [None, Some (''call bank'' @ [CHR 0x0A])]
   \<and> newline_joined ([''call bank''] @ []) = ''call bank''
   \<and> map text_task (tasks (transcribeRecording rnd0 now0 rec_y
        (Data \<lparr>urgent = None, later = Some [''buy milk'']\<rparr>) busy_client))
       = [''buy milk'', ''call bank'', ''buy milk'', ''file taxes'']"
  by (simp add: transcribeRecording_def transcribeRecording_begin_def transcribeRecording_settle_def
      transcript_of_def js_concat_def new_tasks_def busy_client_def rec_x_def rec_y_def
      task_a_def task_b_def task_c_def)

section \<open>Error responses of the endpoint\<close>

text \<open>
  C6. A request whose form has no \<open>audio\<close> field is answered 400 with error
  "No audio file provided". When every step up to the classification call succeeds: no
  content in the first choice (none, or the empty string) is answered 500 with
  "No response from AI", and content that \<open>JSON.parse\<close> rejects is answered 500 with
  "Failed to parse AI response". Any step that throws (reading the form, an \<open>audio\<close>
  entry that is a non-empty string, storing the upload, the speech-to-text call,
  removing the temporary file, the classification call) is answered 500 with
  "Failed to transcribe audio".
\<close>

theorem POST_error_responses:
  "(\<forall>formData. formData_result env = Returns formData \<and> formData ''audio'' = None \<longrightarrow>
      POST parse env = \<lparr>status = 400, body = ErrorBody ''No audio file provided''\<rparr>)
   \<and> (\<forall>formData bytes transcription choices.
        formData_result env = Returns formData \<and> formData ''audio'' = Some (FileValue bytes)
        \<and> store_result env = Returns () \<and> whisper env bytes = Returns transcription
        \<and> unlink_result env = Returns ()
        \<and> chat env (user_message transcription) = Returns choices \<longrightarrow>
          (first_content choices = None \<or> first_content choices = Some [] \<longrightarrow>
             POST parse env = \<lparr>status = 500, body = ErrorBody ''No response from AI''\<rparr>)
          \<and> (\<forall>content. first_content choices = Some content \<and> content \<noteq> []
                \<and> parse content = None \<longrightarrow>
             POST parse env = \<lparr>status = 500, body = ErrorBody ''Failed to parse AI response''\<rparr>))
   \<and> (formData_result env = Throws
        \<or> (\<exists>formData. formData_result env = Returns formData
              \<and> ((\<exists>s. formData ''audio'' = Some (StringValue s) \<and> s \<noteq> [])
                  \<or> (\<exists>bytes. formData ''audio'' = Some (FileValue bytes)
                      \<and> (store_result env = Throws
                          \<or> store_result env = Returns ()
                             \<and> (whisper env bytes = Throws
                                 \<or> (\<exists>transcription. whisper env bytes = Returns transcription
                                      \<and> (unlink_result env = Throws
                                          \<or> unlink_result env = Returns ()
                                             \<and> chat env (user_message transcription) = Throws))))))) \<longrightarrow>
        POST parse env = \<lparr>status = 500, body = ErrorBody ''Failed to transcribe audio''\<rparr>)"
  apply (intro conjI allI impI)
  subgoal by (simp add: POST_def error_response_def)
  subgoal by (auto simp add: POST_def error_response_def)
  subgoal by (auto simp add: POST_def error_response_def POST_parse_def)
  subgoal by (auto simp add: POST_def error_response_def)
  done

theorem POST_error_responses_witness:
  "POST parse0 (env_ok\<lparr>formData_result := Returns (\<lambda>k. None)\<rparr>)
     = \<lparr>status = 400, body = ErrorBody ''No audio file provided''\<rparr>
   \<and> POST parse0 (env_ok\<lparr>chat := (\<lambda>m. Returns [])\<rparr>)
     = \<lparr>status = 500, body = ErrorBody ''No response from AI''\<rparr>
   \<and> POST parse0 (env_ok\<lparr>chat := (\<lambda>m. Returns [Some ''sorry'']) \<rparr>)
     = \<lparr>status = 500, body = ErrorBody ''Failed to parse AI response''\<rparr>
   \<and> POST parse0 (env_ok\<lparr>whisper := (\<lambda>b. Throws)\<rparr>)
     = \<lparr>status = 500, body = ErrorBody ''Failed to transcribe audio''\<rparr>"
proof -
  let ?e1 = "env_ok\<lparr>formData_result := Returns (\<lambda>k. None)\<rparr>"
  let ?e2 = "env_ok\<lparr>chat := (\<lambda>m. Returns [])\<rparr>"
  let ?e3 = "env_ok\<lparr>chat := (\<lambda>m. Returns [Some ''sorry''])\<rparr>"
  let ?e4 = "env_ok\<lparr>whisper := (\<lambda>b. Throws)\<rparr>"
  let ?form = "\<lambda>k. if k = ''audio'' then Some (FileValue [1, 2, 3]) else None"
  have 1: "POST parse0 ?e1 = \<lparr>status = 400, body = ErrorBody ''No audio file provided''\<rparr>"
    using POST_error_responses [of ?e1 parse0, THEN conjunct1, rule_format, of "\<lambda>k. None"]
    by (simp add: env_ok_def)
  have 2: "POST parse0 ?e2 = \<lparr>status = 500, body = ErrorBody ''No response from AI''\<rparr>"
    using POST_error_responses [of ?e2 parse0, THEN conjunct2, THEN conjunct1, rule_format,
        of ?form "[1, 2, 3]" "''call the bank''" "[]", THEN conjunct1]
    by (simp add: env_ok_def)
  have 3: "POST parse0 ?e3 = \<lparr>status = 500, body = ErrorBody ''Failed to parse AI response''\<rparr>"
    using POST_error_responses [of ?e3 parse0, THEN conjunct2, THEN conjunct1, rule_format,
        of ?form "[1, 2, 3]" "''call the bank''" "[Some ''sorry'']", THEN conjunct2,
        rule_format, of "''sorry''"]
    by (simp add: env_ok_def parse0_def)
  have 4: "POST parse0 ?e4 = \<lparr>status = 500, body = ErrorBody ''Failed to transcribe audio''\<rparr>"
    using POST_error_responses [of ?e4 parse0, THEN conjunct2, THEN conjunct2]
    by (simp add: env_ok_def)
  from 1 2 3 4 show ?thesis by blast
qed

section \<open>Deleting a recording\<close>

text \<open>
  C8. After \<open>deleteRecording\<close> with an id, no recording with that id is left, the
  recordings with any other id are the same as before and in the same order, and (ids
  being distinct) exactly one recording is gone when the id was in the list. The
  selection becomes null when the selected recording has that id and is unchanged
  otherwise.
\<close>

theorem deleteRecording_effect:
  "i \<notin> id_recording ` set (recordings (deleteRecording c i))
   \<and> filter (\<lambda>r. id_recording r \<noteq> i) (recordings (deleteRecording c i))
        = filter (\<lambda>r. id_recording r \<noteq> i) (recordings c)
   \<and> (distinct (map id_recording (recordings c)) \<and> i \<in> id_recording ` set (recordings c) \<longrightarrow>
        Suc (length (recordings (deleteRecording c i))) = length (recordings c))
   \<and> selectedRecording (deleteRecording c i)
        = (case selectedRecording c of
             None \<Rightarrow> None
           | Some r \<Rightarrow> if id_recording r = i then None else Some r)"
proof -
  have rs: "recordings (deleteRecording c i) = filter (\<lambda>r. id_recording r \<noteq> i) (recordings c)"
    by (simp add: deleteRecording_def Let_def)
  have sel: "selectedRecording (deleteRecording c i)
        = (case selectedRecording c of
             None \<Rightarrow> None
           | Some r \<Rightarrow> if id_recording r = i then None else Some r)"
    by (simp add: deleteRecording_def Let_def split: option.splits)
  have len: "distinct (map id_recording (recordings c)) \<and> i \<in> id_recording ` set (recordings c) \<longrightarrow>
        Suc (length (recordings (deleteRecording c i))) = length (recordings c)"
    unfolding rs using filter_distinct_key_length [of id_recording "recordings c" i] by blast
  from rs sel len show ?thesis by auto
qed

theorem deleteRecording_effect_witness:
  "map id_recording (recordings (deleteRecording busy_client ''x'')) = [''y'']
   \<and> selectedRecording (deleteRecording busy_client ''x'') = None
   \<and> length (recordings (deleteRecording busy_client ''x'')) = 1
   \<and> selectedRecording (deleteRecording busy_client ''y'') = Some rec_x"
  using deleteRecording_effect [of "''x''" busy_client]
    deleteRecording_effect [of "''y''" busy_client]
  by (simp add: busy_client_def rec_x_def rec_y_def deleteRecording_def)

section \<open>Starting while recording\<close>




section \<open>Ids that name no task\<close>

text \<open>
  C10. With an id that no task of the list has, \<open>toggleTaskComplete\<close>, \<open>deleteTask\<close>
  and \<open>updateTaskPriority\<close> each leave the task list exactly as it was.
\<close>

theorem unknown_id_leaves_tasks:
  "i \<notin> id_task ` set (tasks c) \<Longrightarrow>
     tasks (toggleTaskComplete c i) = tasks c
     \<and> tasks (deleteTask c i) = tasks c
     \<and> tasks (updateTaskPriority c i p) = tasks c"
  by (simp add: toggleTaskComplete_def deleteTask_def updateTaskPriority_def map_if_absent
      filter_absent)

theorem unknown_id_leaves_tasks_witness:
  "''zz'' \<notin> id_task ` set (tasks busy_client)
   \<and> tasks (toggleTaskComplete busy_client ''zz'') = [task_a, task_b, task_c]
   \<and> tasks (deleteTask busy_client ''zz'') = [task_a, task_b, task_c]
   \<and> tasks (updateTaskPriority busy_client ''zz'' Low) = [task_a, task_b, task_c]"
proof -
  have h: "''zz'' \<notin> id_task ` set (tasks busy_client)"
    by (simp add: busy_client_def task_a_def task_b_def task_c_def)
  show ?thesis
    using h unknown_id_leaves_tasks [OF h, of Low] by (simp add: busy_client_def)
qed

end
